theory Spec2Isabelle
  imports Complex_Main "HOL-Library.Log_Nat" "HOL-Library.Sublist" "HOL-Library.Code_Target_Nat"
begin

section \<open>Data model of script.js\<close>

text \<open>
  JavaScript values are modelled as follows.  A string is a \<^typ>\<open>string\<close>: a list of code
  units, of which the type \<^typ>\<open>char\<close> has the 256 from U+0000 to U+00FF (the hero and item
  names of the data set are ASCII).  The value \<^verbatim>\<open>undefined\<close> (and \<^verbatim>\<open>null\<close>) of an
  optional value is \<^term>\<open>None\<close>.  An object used as a dictionary is a map; the per-phase
  popularity object, whose key order matters, is the list of its entries in the order
  in which \<^verbatim>\<open>Object.keys\<close> enumerates them (every key occurs once).
\<close>

datatype error = TypeError

text \<open>An entry of \<^verbatim>\<open>ITEM_CONSTANTS\<close>: \<^verbatim>\<open>id\<close>, \<^verbatim>\<open>img\<close> and the optional \<^verbatim>\<open>components\<close> array.\<close>

record item =
  item_id :: int
  img :: string
  components :: "string list option"

text \<open>An entry of \<^verbatim>\<open>HERO_CONSTANTS\<close>; only \<^verbatim>\<open>img\<close> is read.\<close>

record hero_constant =
  hero_img :: string

text \<open>
  An entry of \<^verbatim>\<open>HERO_STATS\<close>.  \<^term>\<open>pick h i\<close> and \<^term>\<open>win h i\<close> are the fields
  \<^verbatim>\<open>i_pick\<close> and \<^verbatim>\<open>i_win\<close> (for \<open>i\<close> from 1 to 8), non-negative integer counters.
\<close>

record hero =
  hero_id :: int
  name :: string
  localized_name :: string
  primary_attr :: string
  pick :: "nat \<Rightarrow> nat"
  win :: "nat \<Rightarrow> nat"

type_synonym payload = "(string \<times> int) list"

text \<open>
  The cached globals, and the one network call made per hero (\<^verbatim>\<open>ItemPopularity\<close>), as
  the function from the hero id to the object the call returns.
\<close>

record env =
  HERO_CONSTANTS :: "int \<rightharpoonup> hero_constant"
  ITEM_CONSTANTS :: "string \<rightharpoonup> item"
  ITEM_IDS :: "string \<rightharpoonup> string"
  HERO_STATS :: "hero list"
  ItemPopularity :: "int \<Rightarrow> (string \<rightharpoonup> payload)"

section \<open>Strings and arrays\<close>

text \<open>\<^verbatim>\<open>xs[i]\<close>: reading past the end of an array gives \<^verbatim>\<open>undefined\<close>.\<close>

definition array_get :: "'a list \<Rightarrow> nat \<Rightarrow> 'a option" where
  "array_get xs i = (if i < length xs then Some (xs ! i) else None)"

text \<open>\<^verbatim>\<open>s.includes(q)\<close>: \<open>q\<close> occurs in \<open>s\<close> as a contiguous substring.\<close>

fun string_includes :: "string \<Rightarrow> string \<Rightarrow> bool" where
  "string_includes [] q = (q = [])"
| "string_includes (c # cs) q = (prefix q (c # cs) \<or> string_includes cs q)"

text \<open>
  \<^verbatim>\<open>toLowerCase\<close>: the capital letters below U+0100 are A to Z (65 to 90) and U+00C0 to
  U+00DE without the multiplication sign U+00D7; each has its small letter 32 code units
  above.  \<^verbatim>\<open>toUpperCase\<close> is applied to the localized names of the roster only, and is
  modelled on the ASCII letters.
\<close>

definition lower_char :: "char \<Rightarrow> char" where
  "lower_char c =
     (let n = (of_char c :: nat)
      in if (65 \<le> n \<and> n \<le> 90) \<or> (192 \<le> n \<and> n \<le> 222 \<and> n \<noteq> 215) then char_of (n + 32) else c)"

definition upper_char :: "char \<Rightarrow> char" where
  "upper_char c =
     (let n = (of_char c :: nat) in if 97 \<le> n \<and> n \<le> 122 then char_of (n - 32) else c)"

definition toLowerCase :: "string \<Rightarrow> string" where
  "toLowerCase s = map lower_char s"

definition toUpperCase :: "string \<Rightarrow> string" where
  "toUpperCase s = map upper_char s"

text \<open>
  \<^verbatim>\<open>trim\<close> removes white space and line terminators from both ends.  Below U+0100 these
  are tab, line feed, vertical tab, form feed, carriage return, space and the no-break
  space U+00A0; the others (U+1680, U+2000 to U+200A, U+2028, U+2029, U+202F, U+205F,
  U+3000, U+FEFF) are not code units of the type \<^typ>\<open>char\<close>.
\<close>

definition is_space :: "char \<Rightarrow> bool" where
  "is_space c = ((of_char c :: nat) \<in> {9, 10, 11, 12, 13, 32, 160})"

definition trim :: "string \<Rightarrow> string" where
  "trim s = rev (dropWhile is_space (rev (dropWhile is_space s)))"

section \<open>Hero lookup\<close>

text \<open>
  \<^verbatim>\<open>GetHero(query)\<close>, with the global \<^verbatim>\<open>HERO_STATS\<close> as first argument.  The loop over the
  roster is the recursion over the list; \<^verbatim>\<open>continue\<close> is the recursive call,
  \<^verbatim>\<open>return null\<close> is \<^term>\<open>None\<close>.  \<^verbatim>\<open>hero['name'].slice(14, hero['name'].length)\<close> is
  \<^term>\<open>drop 14 (name hero)\<close>.
\<close>

fun GetHero :: "hero list \<Rightarrow> string \<Rightarrow> hero option" where
  "GetHero [] query = None"
| "GetHero (hero # rest) query =
     (if query = ''io'' \<and> toLowerCase (localized_name hero) \<noteq> ''io'' then GetHero rest query
      else if string_includes (toLowerCase (localized_name hero)) query
              \<or> string_includes (drop 14 (name hero)) query
      then Some hero
      else GetHero rest query)"

section \<open>Item pipeline\<close>

text \<open>
  \<^verbatim>\<open>GetItems(itemIds)\<close>: the two-stage lookup.  A missing entry of \<^verbatim>\<open>ITEM_IDS\<close> gives
  \<^verbatim>\<open>undefined\<close>, which as a property key of \<^verbatim>\<open>ITEM_CONSTANTS\<close> is the string \<^verbatim>\<open>"undefined"\<close>.
\<close>

definition lookup_item :: "env \<Rightarrow> string \<Rightarrow> item option" where
  "lookup_item e iid =
     (let item_name = (case ITEM_IDS e iid of None \<Rightarrow> ''undefined'' | Some n \<Rightarrow> n)
      in ITEM_CONSTANTS e item_name)"

fun GetItems :: "env \<Rightarrow> (string \<times> int) list \<Rightarrow> item list" where
  "GetItems e [] = []"
| "GetItems e (pair # rest) =
     (case lookup_item e (fst pair) of
        None \<Rightarrow> GetItems e rest
      | Some item_obj \<Rightarrow> item_obj # GetItems e rest)"

text \<open>
  \<^verbatim>\<open>Array.prototype.sort\<close> with a comparison function is a stable sort: \<open>a\<close> stays before
  \<open>b\<close> unless the comparison of \<open>a\<close> with \<open>b\<close> is positive.  Insertion from the right is
  one such sort.
\<close>

fun insert_by :: "('a \<Rightarrow> 'a \<Rightarrow> int) \<Rightarrow> 'a \<Rightarrow> 'a list \<Rightarrow> 'a list" where
  "insert_by cmp x [] = [x]"
| "insert_by cmp x (y # ys) = (if cmp x y \<le> 0 then x # y # ys else y # insert_by cmp x ys)"

definition array_sort :: "('a \<Rightarrow> 'a \<Rightarrow> int) \<Rightarrow> 'a list \<Rightarrow> 'a list" where
  "array_sort cmp xs = foldr (insert_by cmp) xs []"

text \<open>\<^verbatim>\<open>Object.keys(periodItems).map(key => [key, periodItems[key]])\<close>.\<close>

definition key_value_pairs :: "payload \<Rightarrow> (string \<times> int) list" where
  "key_value_pairs periodItems =
     map (\<lambda>key. (key, the (map_of periodItems key))) (map fst periodItems)"

definition SortItems :: "payload \<Rightarrow> (string \<times> int) list" where
  "SortItems periodItems =
     (let items = key_value_pairs periodItems
      in array_sort (\<lambda>first second. snd second - snd first) items)"

text \<open>The callback of \<^verbatim>\<open>objectList.filter\<close> in \<^verbatim>\<open>MostBought\<close>; an array, even an empty one, is truthy.\<close>

definition interesting :: "item \<Rightarrow> bool" where
  "interesting item =
     (if item_id item \<in> set [1, 41, 609] then True
      else if components item \<noteq> None then True
      else False)"

text \<open>
  The padding loop \<^verbatim>\<open>for (let i = 0; filteredItems.length < 5; i++) filteredItems.push(objectList[i])\<close>.
  The elements of \<^verbatim>\<open>filteredItems\<close> are items or \<^verbatim>\<open>undefined\<close>.
\<close>

function pad :: "item list \<Rightarrow> nat \<Rightarrow> item option list \<Rightarrow> item option list" where
  "pad objectList i filteredItems =
     (if length filteredItems < 5
      then pad objectList (i + 1) (filteredItems @ [array_get objectList i])
      else filteredItems)"
  by pat_completeness auto
termination
  by (relation "measure (\<lambda>(objectList, i, filteredItems). 5 - length filteredItems)") auto

text \<open>
  \<^verbatim>\<open>MostBought(period, stats)\<close>.  When \<^verbatim>\<open>stats[period]\<close> is missing, \<^verbatim>\<open>Object.keys(undefined)\<close>
  throws a \<^verbatim>\<open>TypeError\<close>.
\<close>

definition MostBought :: "env \<Rightarrow> string \<Rightarrow> (string \<rightharpoonup> payload) \<Rightarrow> error + item option list" where
  "MostBought e period stats =
     (case stats period of
        None \<Rightarrow> Inl TypeError
      | Some periodItems \<Rightarrow>
          (let items = SortItems periodItems;
               objectList = GetItems e items;
               filteredItems = filter interesting objectList
           in Inr (pad objectList 0 (map Some filteredItems))))"

record top_items =
  early_game :: "item option list"
  mid_game :: "item option list"
  late_game :: "item option list"

text \<open>\<^verbatim>\<open>MostBoughtItems(heroId)\<close>; \<^verbatim>\<open>xs.slice(0, 5)\<close> is \<^term>\<open>take 5 xs\<close>.\<close>

definition MostBoughtItems :: "env \<Rightarrow> int \<Rightarrow> error + top_items" where
  "MostBoughtItems e heroId =
     (let openDotaStats = ItemPopularity e heroId in
      case MostBought e ''early_game_items'' openDotaStats of
        Inl err \<Rightarrow> Inl err
      | Inr earlyGame \<Rightarrow>
          (case MostBought e ''mid_game_items'' openDotaStats of
             Inl err \<Rightarrow> Inl err
           | Inr midGame \<Rightarrow>
               (case MostBought e ''late_game_items'' openDotaStats of
                  Inl err \<Rightarrow> Inl err
                | Inr lateGame \<Rightarrow>
                    Inr \<lparr>early_game = take 5 earlyGame,
                         mid_game = take 5 midGame,
                         late_game = take 5 lateGame\<rparr>)))"

section \<open>Numbers\<close>

text \<open>
  A JavaScript number is an IEEE 754 double.  The finite ones are modelled by the
  rational numbers they denote, and every arithmetic operation rounds its exact result
  to the nearest double, ties to the even significand (53 bits).  The exponent range is
  not bounded in the model: overflow and gradual underflow, which need magnitudes
  beyond \<open>2 ^ 1023\<close> or below \<open>1 / 2 ^ 1022\<close>, are not modelled.
\<close>

datatype number = NaN | Infinity | NegInfinity | Num rat

text \<open>\<^term>\<open>exponent x\<close> is the integer \<open>e\<close> with \<open>2 powi e \<le> x < 2 powi (e + 1)\<close>, for \<open>0 < x\<close>.\<close>

definition exponent :: "rat \<Rightarrow> int" where
  "exponent x = (if 1 \<le> x then bitlen \<lfloor>x\<rfloor> - 1 else - bitlen (\<lceil>1 / x\<rceil> - 1))"

definition round_even :: "rat \<Rightarrow> int" where
  "round_even q =
     (let n = \<lfloor>q\<rfloor>; r = q - of_int n
      in if r < 1 / 2 then n else if 1 / 2 < r then n + 1 else if even n then n else n + 1)"

definition double :: "rat \<Rightarrow> rat" where
  "double x =
     (if x = 0 then 0
      else (let u = 2 powi (exponent \<bar>x\<bar> - 52) in of_int (round_even (x / u)) * u))"

definition add :: "rat \<Rightarrow> rat \<Rightarrow> rat" where
  "add a b = double (a + b)"

definition sub :: "rat \<Rightarrow> rat \<Rightarrow> rat" where
  "sub a b = double (a - b)"

definition mul :: "rat \<Rightarrow> rat \<Rightarrow> rat" where
  "mul a b = double (a * b)"

text \<open>\<^verbatim>\<open>a / b\<close> on finite numbers: \<^verbatim>\<open>0 / 0\<close> is \<^verbatim>\<open>NaN\<close>, any other division by zero is infinite.\<close>

definition divide_num :: "rat \<Rightarrow> rat \<Rightarrow> number" where
  "divide_num a b =
     (if b = 0 then (if a = 0 then NaN else if 0 < a then Infinity else NegInfinity)
      else Num (double (a / b)))"

text \<open>\<^verbatim>\<open>x * b\<close> for a finite \<open>b\<close>.\<close>

fun times_num :: "number \<Rightarrow> rat \<Rightarrow> number" where
  "times_num NaN b = NaN"
| "times_num Infinity b = (if b = 0 then NaN else if 0 < b then Infinity else NegInfinity)"
| "times_num NegInfinity b = (if b = 0 then NaN else if 0 < b then NegInfinity else Infinity)"
| "times_num (Num a) b = Num (double (a * b))"

text \<open>
  The text a number is printed as.  \<^verbatim>\<open>toFixed\<close> prints a finite number of magnitude
  \<open>10 ^ 21\<close> or more as \<^verbatim>\<open>toString\<close> does, in exponent form; those digits are not
  computed here, the number is kept instead.
\<close>

datatype printed = Str string | NumberToString rat

definition digit :: "nat \<Rightarrow> char" where
  "digit d = char_of (48 + d)"

function digits :: "nat \<Rightarrow> string" where
  "digits n = (if n < 10 then [digit n] else digits (n div 10) @ [digit (n mod 10)])"
  by pat_completeness auto
termination
  by (relation "measure (\<lambda>n. n)") auto

text \<open>
  \<^verbatim>\<open>x.toFixed(f)\<close>: the integer \<open>n\<close> for which \<open>n / 10 ^ f\<close> is nearest to the exact value of
  \<open>x\<close> (the larger \<open>n\<close> when two are equally near), printed with \<open>f\<close> digits after the point.
\<close>

fun toFixed :: "nat \<Rightarrow> number \<Rightarrow> printed" where
  "toFixed f NaN = Str ''NaN''"
| "toFixed f Infinity = Str ''Infinity''"
| "toFixed f NegInfinity = Str ''-Infinity''"
| "toFixed f (Num x) =
     (if 10 ^ 21 \<le> \<bar>x\<bar> then NumberToString x
      else (let s = (if x < 0 then ''-'' else []);
                n = nat \<lfloor>\<bar>x\<bar> * 10 ^ f + 1 / 2\<rfloor>;
                m = digits n;
                m = (if f \<noteq> 0
                     then (let m = (if length m \<le> f then replicate (f + 1 - length m) CHR ''0'' @ m else m);
                               k = length m
                           in take (k - f) m @ ''.'' @ drop (k - f) m)
                     else m)
            in Str (s @ m)))"

section \<open>Win rate and random choice\<close>

text \<open>
  \<^verbatim>\<open>WinRate(hero)\<close>; \<^verbatim>\<open>reduce((a, b) => a + b, 0)\<close> is a left fold of the addition.  The
  counters are numbers of a JSON document, taken to be integers that a double holds
  exactly.
\<close>

definition WinRate :: "hero \<Rightarrow> printed" where
  "WinRate hero =
     (let picks = map (\<lambda>i. of_nat (pick hero i)) [1 ..< 9];
          wins = map (\<lambda>i. of_nat (win hero i)) [1 ..< 9];
          sum_picks = foldl add 0 picks;
          sum_wins = foldl add 0 wins;
          winrate = times_num (divide_num sum_wins sum_picks) 100
      in toFixed 2 winrate)"

text \<open>
  \<^verbatim>\<open>RandomIntFromInterval(min, max)\<close> (\<open>lo\<close> and \<open>hi\<close> here), with the value \<open>r\<close> that
  \<^verbatim>\<open>Math.random()\<close> returns (\<open>0 \<le> r < 1\<close>) as an argument.
\<close>

definition RandomIntFromInterval :: "rat \<Rightarrow> rat \<Rightarrow> rat \<Rightarrow> int" where
  "RandomIntFromInterval r lo hi = \<lfloor>add (mul r (add (sub hi lo) 1)) lo\<rfloor>"

section \<open>The page\<close>

text \<open>
  The elements of the document the script writes to: the value of the search field, the
  hero's name, the sources of the attribute and hero images, the win rate line (the
  pieces it is concatenated from), the image sources of the three item rows, and the
  alerts shown.
\<close>

record dom =
  hero_search :: string
  hero_name :: string
  attribute_src :: string
  winrate :: "printed list"
  hero_image :: string
  early_game_row :: "string list"
  mid_game_row :: "string list"
  late_game_row :: "string list"
  alerts :: "string list"

text \<open>
  How a function ends: it returns, or it throws (an \<^verbatim>\<open>async\<close> function then rejects its
  promise).  The asynchronous functions are run to completion one after the other; what a
  function wrote to the document before it threw stays written.
\<close>

datatype completion = Normal | Throw error

text \<open>
  \<^verbatim>\<open>UpdateItems(row, items)\<close>, the loop from \<open>i\<close>.  Reading \<^verbatim>\<open>img\<close> of an undefined
  \<^verbatim>\<open>items[i]\<close>, or writing \<^verbatim>\<open>src\<close> of a missing child of the row, throws.
\<close>

function UpdateItems_from :: "nat \<Rightarrow> string list \<Rightarrow> item option list \<Rightarrow> completion \<times> string list" where
  "UpdateItems_from i row items =
     (if i < 5
      then (case array_get items i of
              Some (Some item) \<Rightarrow>
                if i < length row
                then UpdateItems_from (i + 1) (row[i := ''https://cdn.dota2.com/'' @ img item]) items
                else (Throw TypeError, row)
            | _ \<Rightarrow> (Throw TypeError, row))
      else (Normal, row))"
  by pat_completeness auto
termination
  by (relation "measure (\<lambda>(i, row, items). 5 - i)") auto

definition UpdateItems :: "string list \<Rightarrow> item option list \<Rightarrow> completion \<times> string list" where
  "UpdateItems row items = UpdateItems_from 0 row items"

definition attr_dict :: "string \<rightharpoonup> string" where
  "attr_dict =
     [''str'' \<mapsto> ''strength'', ''agi'' \<mapsto> ''agility'',
      ''int'' \<mapsto> ''intelligence'', ''all'' \<mapsto> ''universal'']"

text \<open>
  \<^verbatim>\<open>UpdatePage(heroName)\<close> on the document \<open>d\<close>.  The statements that can throw are
  \<^verbatim>\<open>attribute[0]\<close> for an attribute missing from \<^verbatim>\<open>attr_dict\<close>, \<^verbatim>\<open>heroConstant['img']\<close>
  for a hero missing from \<^verbatim>\<open>HERO_CONSTANTS\<close>, \<^verbatim>\<open>MostBoughtItems\<close> and \<^verbatim>\<open>UpdateItems\<close>.
\<close>

definition UpdatePage :: "env \<Rightarrow> string \<Rightarrow> dom \<Rightarrow> completion \<times> dom" where
  "UpdatePage e heroName d =
     (case GetHero (HERO_STATS e) heroName of
        None \<Rightarrow> (Normal, d\<lparr>alerts := alerts d @ [''Could not find that hero.'']\<rparr>)
      | Some hero \<Rightarrow>
          (let heroConstant = HERO_CONSTANTS e (hero_id hero);
               d = d\<lparr>hero_name := toUpperCase (localized_name hero)\<rparr>
           in case attr_dict (primary_attr hero) of
                None \<Rightarrow> (Throw TypeError, d)
              | Some attribute \<Rightarrow>
                  (let d = d\<lparr>attribute_src := ''images/'' @ attribute @ ''.png''\<rparr>;
                       d = d\<lparr>winrate := [Str ''Winrate: '', WinRate hero, Str ''%'']\<rparr>
                   in case heroConstant of
                        None \<Rightarrow> (Throw TypeError, d)
                      | Some hc \<Rightarrow>
                          (let d = d\<lparr>hero_image := ''https://cdn.dota2.com/'' @ hero_img hc\<rparr>
                           in case MostBoughtItems e (hero_id hero) of
                                Inl err \<Rightarrow> (Throw err, d)
                              | Inr items \<Rightarrow>
                                  (case UpdateItems (early_game_row d) (early_game items) of
                                     (Throw err, row) \<Rightarrow> (Throw err, d\<lparr>early_game_row := row\<rparr>)
                                   | (Normal, row) \<Rightarrow>
                                       (let d = d\<lparr>early_game_row := row\<rparr>
                                        in case UpdateItems (mid_game_row d) (mid_game items) of
                                             (Throw err, row) \<Rightarrow> (Throw err, d\<lparr>mid_game_row := row\<rparr>)
                                           | (Normal, row) \<Rightarrow>
                                               (let d = d\<lparr>mid_game_row := row\<rparr>
                                                in case UpdateItems (late_game_row d) (late_game items) of
                                                     (c, row) \<Rightarrow> (c, d\<lparr>late_game_row := row\<rparr>))))))))"

text \<open>
  \<^verbatim>\<open>RandomHero()\<close>, with the value \<open>r\<close> of \<^verbatim>\<open>Math.random()\<close>.  When the index is not one of
  the roster, \<^verbatim>\<open>targetHero\<close> is undefined and \<^verbatim>\<open>targetHero['name']\<close> throws.
\<close>

definition RandomHero :: "env \<Rightarrow> rat \<Rightarrow> dom \<Rightarrow> completion \<times> dom" where
  "RandomHero e r d =
     (let d = d\<lparr>hero_search := []\<rparr>;
          index = RandomIntFromInterval r 0 (of_nat (length (HERO_STATS e)));
          targetHero = (if index < 0 then None else array_get (HERO_STATS e) (nat index))
      in case targetHero of
           None \<Rightarrow> (Throw TypeError, d)
         | Some targetHero \<Rightarrow>
             (let heroName = drop 14 (name targetHero)
              in UpdatePage e heroName d))"

text \<open>\<^verbatim>\<open>SearchHero()\<close>, with the value \<open>r\<close> that \<^verbatim>\<open>Math.random()\<close> would return.\<close>

definition SearchHero :: "env \<Rightarrow> rat \<Rightarrow> dom \<Rightarrow> completion \<times> dom" where
  "SearchHero e r d =
     (let heroName = hero_search d;
          heroName = trim (toLowerCase heroName)
      in if heroName = [] then RandomHero e r d else UpdatePage e heroName d)"

section \<open>Statements of the specification\<close>

text \<open>
  The hero resolver's matching rule in the specification's words: the localized name
  contains the query, compared without regard to case, or the internal name without its
  14-character prefix \<^verbatim>\<open>npc_dota_hero_\<close> contains the query.
\<close>

definition name_matches :: "string \<Rightarrow> hero \<Rightarrow> bool" where
  "name_matches query h =
     (sublist (toLowerCase query) (toLowerCase (localized_name h))
      \<or> sublist query (drop 14 (name h)))"

text \<open>
  The filter rule in the specification's words: one of the three fixed ids, or a
  components list that is present and not empty.
\<close>

definition spec_interesting :: "item \<Rightarrow> bool" where
  "spec_interesting item =
     (item_id item \<in> {1, 41, 609}
      \<or> (case components item of None \<Rightarrow> False | Some cs \<Rightarrow> cs \<noteq> []))"

text \<open>
  An entry of the popularity object passes the pipeline's filter when its id resolves to
  an item and that item is kept by the filter.
\<close>

definition kept_pair :: "env \<Rightarrow> string \<times> int \<Rightarrow> bool" where
  "kept_pair e p = (case lookup_item e (fst p) of None \<Rightarrow> False | Some item \<Rightarrow> interesting item)"

text \<open>
  The totals over the eight skill brackets, and the win rate in the specification's
  words: \<open>100 * totalWins / totalPicks\<close>, in exact arithmetic, rounded to two decimal
  places with halves rounded up, printed with two digits after the point.
\<close>

definition total_picks :: "hero \<Rightarrow> nat" where
  "total_picks h = sum_list (map (pick h) [1 ..< 9])"

definition total_wins :: "hero \<Rightarrow> nat" where
  "total_wins h = sum_list (map (win h) [1 ..< 9])"

definition two_decimals :: "nat \<Rightarrow> string" where
  "two_decimals n = digits (n div 100) @ ''.'' @ [digit (n div 10 mod 10), digit (n mod 10)]"

definition spec_winRate :: "nat \<Rightarrow> nat \<Rightarrow> string" where
  "spec_winRate totalWins totalPicks =
     two_decimals (nat \<lfloor>100 * (of_nat totalWins :: rat) / of_nat totalPicks * 100 + 1 / 2\<rfloor>)"

text \<open>
  The phases of \<^verbatim>\<open>MostBoughtItems\<close>: the key it reads from the popularity object, and the
  field of the object it returns that holds the phase's list.
\<close>

definition phases :: "(string \<times> (top_items \<Rightarrow> item option list)) list" where
  "phases = [(''early_game_items'', early_game), (''mid_game_items'', mid_game),
     (''late_game_items'', late_game)]"

section \<open>Example data\<close>

definition counters :: "nat list \<Rightarrow> nat \<Rightarrow> nat" where
  "counters xs i = (if 1 \<le> i \<and> i \<le> length xs then xs ! (i - 1) else 0)"

definition hero_axe :: hero where
  "hero_axe = \<lparr>hero_id = 2, name = ''npc_dota_hero_axe'', localized_name = ''Axe'',
     primary_attr = ''str'', pick = counters [100, 200, 300, 200, 100, 50, 30, 20],
     win = counters [50, 110, 160, 100, 55, 25, 20, 10]\<rparr>"

definition hero_lion :: hero where
  "hero_lion = \<lparr>hero_id = 26, name = ''npc_dota_hero_lion'', localized_name = ''Lion'',
     primary_attr = ''int'', pick = counters [125, 125, 125, 125, 125, 125, 125, 125],
     win = counters [70, 70, 70, 70, 60, 60, 65, 65]\<rparr>"

definition hero_wisp :: hero where
  "hero_wisp = \<lparr>hero_id = 91, name = ''npc_dota_hero_wisp'', localized_name = ''Io'',
     primary_attr = ''all'', pick = counters [0, 0, 0, 0, 0, 0, 0, 0],
     win = counters [0, 0, 0, 0, 0, 0, 0, 0]\<rparr>"

definition hero_visage :: hero where
  "hero_visage = \<lparr>hero_id = 92, name = ''npc_dota_hero_visage'', localized_name = ''Visage'',
     primary_attr = ''all'', pick = counters [160, 0, 0, 0, 0, 0, 0, 0],
     win = counters [23, 0, 0, 0, 0, 0, 0, 0]\<rparr>"

definition hero_crowd :: hero where
  "hero_crowd = \<lparr>hero_id = 93, name = ''npc_dota_hero_crowd'', localized_name = ''Crowd'',
     primary_attr = ''all'', pick = counters [1769245881371, 0, 0, 0, 0, 0, 0, 0],
     win = counters [660724874398, 0, 0, 0, 0, 0, 0, 0]\<rparr>"

definition example_roster :: "hero list" where
  "example_roster = [hero_axe, hero_lion, hero_wisp]"

definition blink :: item where
  "blink = \<lparr>item_id = 1, img = ''/items/blink.png'', components = None\<rparr>"

definition branches :: item where
  "branches = \<lparr>item_id = 16, img = ''/items/branches.png'', components = None\<rparr>"

definition boots :: item where
  "boots = \<lparr>item_id = 29, img = ''/items/boots.png'', components = None\<rparr>"

definition magic_wand :: item where
  "magic_wand = \<lparr>item_id = 36, img = ''/items/magic_wand.png'',
     components = Some [''magic_stick'', ''branches'', ''branches'']\<rparr>"

definition tango :: item where
  "tango = \<lparr>item_id = 44, img = ''/items/tango.png'', components = None\<rparr>"

definition tpscroll :: item where
  "tpscroll = \<lparr>item_id = 46, img = ''/items/tpscroll.png'', components = None\<rparr>"

definition phase_boots :: item where
  "phase_boots = \<lparr>item_id = 50, img = ''/items/phase_boots.png'',
     components = Some [''boots'', ''chainmail'', ''blades_of_attack'']\<rparr>"

definition empty_components :: item where
  "empty_components = \<lparr>item_id = 2, img = ''/items/blades_of_attack.png'', components = Some []\<rparr>"

definition example_item_ids :: "string \<rightharpoonup> string" where
  "example_item_ids = map_of
     [(''1'', ''blink''), (''16'', ''branches''), (''29'', ''boots''), (''36'', ''magic_wand''),
      (''44'', ''tango''), (''46'', ''tpscroll''), (''50'', ''phase_boots'')]"

definition example_item_constants :: "string \<rightharpoonup> item" where
  "example_item_constants = map_of
     [(''blink'', blink), (''branches'', branches), (''boots'', boots), (''magic_wand'', magic_wand),
      (''tango'', tango), (''tpscroll'', tpscroll), (''phase_boots'', phase_boots)]"

text \<open>Three phase objects, their entries in key order; id 999 resolves to no item.\<close>

definition example_early :: payload where
  "example_early = [(''16'', 900), (''29'', 700), (''36'', 700), (''44'', 1200), (''46'', 300),
     (''50'', 700), (''999'', 5000)]"

definition example_mid :: payload where
  "example_mid = [(''1'', 100), (''16'', 60), (''29'', 90), (''44'', 80), (''46'', 70)]"

definition example_late :: payload where
  "example_late = [(''36'', 10), (''44'', 20)]"

definition example_stats :: "string \<rightharpoonup> payload" where
  "example_stats = map_of
     [(''early_game_items'', example_early), (''mid_game_items'', example_mid),
      (''late_game_items'', example_late)]"

definition example_env :: env where
  "example_env =
     \<lparr>HERO_CONSTANTS = map_of [(2, \<lparr>hero_img = ''/heroes/axe.png''\<rparr>),
        (26, \<lparr>hero_img = ''/heroes/lion.png''\<rparr>), (91, \<lparr>hero_img = ''/heroes/wisp.png''\<rparr>)],
      ITEM_CONSTANTS = example_item_constants,
      ITEM_IDS = example_item_ids,
      HERO_STATS = example_roster,
      ItemPopularity = (\<lambda>heroId. example_stats)\<rparr>"

definition example_dom :: dom where
  "example_dom = \<lparr>hero_search = ''  '', hero_name = [], attribute_src = [], winrate = [],
     hero_image = [], early_game_row = replicate 5 [], mid_game_row = replicate 5 [],
     late_game_row = replicate 5 [], alerts = []\<rparr>"

text \<open>
  A second data set: its early phase has six items that pass the filter, one more than
  \<^verbatim>\<open>MostBoughtItems\<close> keeps.
\<close>

definition bottle :: item where
  "bottle = \<lparr>item_id = 41, img = ''/items/bottle.png'', components = None\<rparr>"

definition power_treads :: item where
  "power_treads = \<lparr>item_id = 63, img = ''/items/power_treads.png'',
     components = Some [''boots'', ''gloves'', ''belt_of_strength'']\<rparr>"

definition bracer :: item where
  "bracer = \<lparr>item_id = 73, img = ''/items/bracer.png'',
     components = Some [''circlet'', ''gauntlets'']\<rparr>"

definition rich_early :: payload where
  "rich_early = [(''1'', 300), (''36'', 900), (''41'', 800), (''44'', 1000), (''50'', 500),
     (''63'', 500), (''73'', 400)]"

definition rich_stats :: "string \<rightharpoonup> payload" where
  "rich_stats = map_of
     [(''early_game_items'', rich_early), (''mid_game_items'', example_mid),
      (''late_game_items'', example_late)]"

definition rich_env :: env where
  "rich_env =
     \<lparr>HERO_CONSTANTS = HERO_CONSTANTS example_env,
      ITEM_CONSTANTS = map_of
        [(''blink'', blink), (''branches'', branches), (''boots'', boots),
         (''magic_wand'', magic_wand), (''bottle'', bottle), (''tango'', tango),
         (''tpscroll'', tpscroll), (''phase_boots'', phase_boots),
         (''power_treads'', power_treads), (''bracer'', bracer)],
      ITEM_IDS = map_of
        [(''1'', ''blink''), (''16'', ''branches''), (''29'', ''boots''), (''36'', ''magic_wand''),
         (''41'', ''bottle''), (''44'', ''tango''), (''46'', ''tpscroll''), (''50'', ''phase_boots''),
         (''63'', ''power_treads''), (''73'', ''bracer'')],
      HERO_STATS = example_roster,
      ItemPopularity = (\<lambda>heroId. rich_stats)\<rparr>"


text \<open>A search field that holds a no-break space, a space and a tab.\<close>

definition nbsp_dom :: dom where
  "nbsp_dom = example_dom\<lparr>hero_search := [CHR 0xA0, CHR '' '', CHR 0x09]\<rparr>"


section \<open>Auxiliary facts\<close>

declare pad.simps [simp del]

lemma pad_closed: "pad objectList i fs = fs @ map (array_get objectList) [i ..< i + (5 - length fs)]"
proof (induction objectList i fs rule: pad.induct)
  case (1 objectList i fs)
  show ?case
  proof (cases "length fs < 5")
    case True
    then obtain m where m: "5 - length fs = Suc m"
      by (cases "5 - length fs") auto
    then have m': "5 - length (fs @ [array_get objectList i]) = m"
      by simp
    have step: "[i ..< i + Suc m] = i # [i + 1 ..< i + 1 + m]"
      by (simp add: upt_conv_Cons)
    from True have "pad objectList i fs = pad objectList (i + 1) (fs @ [array_get objectList i])"
      by (subst pad.simps) simp
    also have "\<dots> = (fs @ [array_get objectList i])
        @ map (array_get objectList) [i + 1 ..< i + 1 + m]"
      using "1.IH" [OF True] unfolding m' .
    finally show ?thesis unfolding m step by simp
  next
    case False
    then show ?thesis by (subst pad.simps) simp
  qed
qed

lemma MostBought_closed:
  assumes "stats period = Some periodItems"
  shows "MostBought e period stats =
     (let objectList = GetItems e (SortItems periodItems);
          filteredItems = filter interesting objectList
      in Inr (map Some filteredItems
              @ map (array_get objectList) [0 ..< 5 - length filteredItems]))"
  using assms by (simp add: MostBought_def pad_closed Let_def)

lemma MostBoughtItems_slices:
  assumes "MostBought e ''early_game_items'' (ItemPopularity e heroId) = Inr earlyGame"
    and "MostBought e ''mid_game_items'' (ItemPopularity e heroId) = Inr midGame"
    and "MostBought e ''late_game_items'' (ItemPopularity e heroId) = Inr lateGame"
  shows "MostBoughtItems e heroId
     = Inr \<lparr>early_game = take 5 earlyGame, mid_game = take 5 midGame, late_game = take 5 lateGame\<rparr>"
  using assms by (simp add: MostBoughtItems_def)

lemma insert_by_insort_key:
  "insert_by (\<lambda>first second. snd second - snd first) x ys = insort_key (\<lambda>p. - snd p) x ys"
  by (induction ys) auto

lemma array_sort_sort_key:
  "array_sort (\<lambda>first second. snd second - snd first) xs = sort_key (\<lambda>p. - snd p) xs"
  by (induction xs) (simp_all add: array_sort_def insert_by_insort_key)

lemma key_value_pairs_distinct:
  assumes "distinct (map fst periodItems)"
  shows "key_value_pairs periodItems = periodItems"
proof -
  have "(a, the (map_of periodItems a)) = (a, b)" if "(a, b) \<in> set periodItems" for a b
    using that assms by simp
  then have "map (\<lambda>p. (fst p, the (map_of periodItems (fst p)))) periodItems = map (\<lambda>p. p) periodItems"
    by (intro map_cong) auto
  then show ?thesis
    by (simp add: key_value_pairs_def comp_def)
qed

lemma SortItems_sort_key:
  "distinct (map fst periodItems) \<Longrightarrow> SortItems periodItems = sort_key (\<lambda>p. - snd p) periodItems"
  by (simp add: SortItems_def key_value_pairs_distinct array_sort_sort_key)

lemma SortItems_descending:
  assumes "distinct (map fst periodItems)"
  shows "sorted_wrt (\<lambda>p q. snd q \<le> snd p) (SortItems periodItems)"
proof -
  have "sorted (map (\<lambda>p. - snd p) (sort_key (\<lambda>p. - snd p) periodItems))"
    by (rule sorted_sort_key)
  then show ?thesis
    by (simp add: SortItems_sort_key [OF assms] sorted_map)
qed

lemma SortItems_stable:
  assumes "distinct (map fst periodItems)"
  shows "filter (\<lambda>p. snd p = c) (SortItems periodItems) = filter (\<lambda>p. snd p = c) periodItems"
  using sort_key_stable [of "\<lambda>p. - snd p" "- c" periodItems]
  by (simp add: SortItems_sort_key [OF assms])

lemma filter_GetItems:
  "map Some (filter interesting (GetItems e ps)) = map (\<lambda>p. lookup_item e (fst p)) (filter (kept_pair e) ps)"
  by (induction ps) (auto simp: kept_pair_def split: option.splits)

lemma string_includes_sublist: "string_includes s q = sublist q s"
  by (induction s) (auto simp: sublist_Cons_right)

lemma GetHero_find:
  assumes "query \<noteq> ''io''"
  shows "GetHero roster query =
    List.find (\<lambda>h. string_includes (toLowerCase (localized_name h)) query
                  \<or> string_includes (drop 14 (name h)) query) roster"
  using assms by (induction roster) auto

lemma GetHero_io:
  "GetHero roster ''io'' = List.find (\<lambda>h. toLowerCase (localized_name h) = ''io'') roster"
proof (induction roster)
  case Nil
  then show ?case by simp
next
  case (Cons h roster)
  have "string_includes ''io'' ''io''" by code_simp
  with Cons show ?case by simp
qed

lemma toLowerCase_examples:
  "toLowerCase ''Axe'' = ''axe''" "toLowerCase ''Lion'' = ''lion''" "toLowerCase ''Io'' = ''io''"
  by code_simp+


lemma exponent_bounds:
  assumes "0 < x"
  shows "2 powi (exponent x) \<le> x \<and> x < 2 powi (exponent x + 1)"
proof (cases "1 \<le> x")
  case True
  define m where "m = \<lfloor>x\<rfloor>"
  have m: "0 < m" using True by (simp add: m_def)
  from bitlen_bounds [OF m] have lo: "2 ^ nat (bitlen m - 1) \<le> m" and hi: "m < 2 ^ nat (bitlen m)"
    by auto
  have bl: "1 \<le> bitlen m"
    using m by (simp add: bitlen_def floorlog_def)
  have e: "exponent x = bitlen m - 1"
    using True by (simp add: exponent_def m_def)
  have "(2::rat) powi (bitlen m - 1) = of_int (2 ^ nat (bitlen m - 1))"
    using bl by (simp add: power_int_def)
  also from lo have "\<dots> \<le> of_int m" by (rule iffD2 [OF of_int_le_iff])
  also have "\<dots> \<le> x" unfolding m_def by linarith
  finally have 1: "2 powi (exponent x) \<le> x" by (simp add: e)
  have "m + 1 \<le> 2 ^ nat (bitlen m)" using hi by simp
  then have "of_int (m + 1) \<le> (of_int (2 ^ nat (bitlen m)) :: rat)"
    by (simp only: of_int_le_iff)
  moreover have "x < of_int (m + 1)" unfolding m_def by linarith
  ultimately have "x < (of_int (2 ^ nat (bitlen m)) :: rat)" by simp
  also have "\<dots> = 2 powi (bitlen m)"
    using bl by (simp add: power_int_def)
  finally have 2: "x < 2 powi (exponent x + 1)" by (simp add: e)
  from 1 2 show ?thesis ..
next
  case False
  define y where "y = 1 / x"
  define m where "m = \<lceil>y\<rceil> - 1"
  have y: "1 < y" using False assms by (simp add: y_def)
  then have m: "0 < m" unfolding m_def by linarith
  from bitlen_bounds [OF m] have lo: "2 ^ nat (bitlen m - 1) \<le> m" and hi: "m < 2 ^ nat (bitlen m)"
    by auto
  have bl: "1 \<le> bitlen m"
    using m by (simp add: bitlen_def floorlog_def)
  have e: "exponent x = - bitlen m"
    using False by (simp add: exponent_def m_def y_def)
  have my: "of_int m < y" "y \<le> of_int m + 1"
    unfolding m_def by linarith+
  have "of_int m + 1 \<le> (of_int (2 ^ nat (bitlen m)) :: rat)"
    using hi by (metis of_int_le_iff of_int_add of_int_1 zless_imp_add1_zle)
  with my(2) have "y \<le> 2 ^ nat (bitlen m)" by simp
  then have "1 / 2 ^ nat (bitlen m) \<le> 1 / y"
    using y by (intro divide_left_mono) auto
  then have 1: "2 powi (exponent x) \<le> x"
    using bl assms by (simp add: e power_int_def y_def field_simps)
  from lo have "(of_int (2 ^ nat (bitlen m - 1)) :: rat) \<le> of_int m"
    by (rule iffD2 [OF of_int_le_iff])
  then have "(2::rat) ^ nat (bitlen m - 1) \<le> of_int m"
    by simp
  from this my(1) have "2 ^ nat (bitlen m - 1) < y" by (rule le_less_trans)
  then have "1 / y < 1 / 2 ^ nat (bitlen m - 1)"
    using y by (intro divide_strict_left_mono) auto
  moreover have "(2::rat) powi (- bitlen m + 1) = 1 / 2 ^ nat (bitlen m - 1)"
    using bl by (simp add: power_int_def field_simps)
  ultimately have 2: "x < 2 powi (exponent x + 1)"
    using assms by (simp add: e y_def)
  from 1 2 show ?thesis ..
qed

lemma round_even_error: "\<bar>of_int (round_even q) - q\<bar> \<le> 1 / 2"
  unfolding round_even_def Let_def by (auto simp: abs_if) linarith+

lemma round_even_of_int: "round_even (of_int k) = k"
  by (simp add: round_even_def)

lemma double_error: "\<bar>double x - x\<bar> \<le> \<bar>x\<bar> / 2 ^ 53"
proof (cases "x = 0")
  case True
  then show ?thesis by (simp add: double_def)
next
  case False
  define e where "e = exponent \<bar>x\<bar>"
  define u :: rat where "u = 2 powi (e - 52)"
  have u: "0 < u" by (simp add: u_def)
  have d: "double x = of_int (round_even (x / u)) * u"
    using False by (simp add: double_def Let_def e_def u_def)
  have "double x - x = (of_int (round_even (x / u)) - x / u) * u"
    using u by (simp add: d field_simps)
  then have "\<bar>double x - x\<bar> = \<bar>of_int (round_even (x / u)) - x / u\<bar> * u"
    using u by (simp add: abs_mult)
  also have "\<dots> \<le> (1 / 2) * u"
    using u round_even_error [of "x / u"] by (intro mult_right_mono) auto
  also have "\<dots> = 2 powi e / 2 ^ 53"
    by (simp add: u_def power_int_diff)
  also have "\<dots> \<le> \<bar>x\<bar> / 2 ^ 53"
    using exponent_bounds [of "\<bar>x\<bar>"] False by (intro divide_right_mono) (auto simp: e_def)
  finally show ?thesis .
qed

lemma double_nonneg: "0 \<le> x \<Longrightarrow> 0 \<le> double x"
proof -
  assume x: "0 \<le> x"
  have "x / 2 ^ 53 \<le> x" using x by (simp add: field_simps)
  with double_error [of x] x show ?thesis by (simp add: abs_if split: if_splits)
qed

lemma double_of_nat:
  assumes "n < 2 ^ 53"
  shows "double (of_nat n) = of_nat n"
proof (cases "n = 0")
  case True
  then show ?thesis by (simp add: double_def)
next
  case False
  define x :: rat where "x = of_nat n"
  define e where "e = exponent \<bar>x\<bar>"
  have x: "0 < x" using False by (simp add: x_def)
  have "2 powi e \<le> x" using exponent_bounds [of x] x by (simp add: e_def)
  also have "x < 2 powi 53" using assms unfolding x_def
    by (metis of_nat_less_iff of_nat_numeral of_nat_power power_int_numeral numeral_power_eq_of_nat_cancel_iff)
  finally have lt: "(2::rat) powi e < 2 powi 53" .
  have "e < 53"
  proof (rule ccontr)
    assume "\<not> e < 53"
    then have "(2::rat) powi 53 \<le> 2 powi e"
      by (intro power_int_increasing) auto
    with lt show False by simp
  qed
  define d where "d = nat (52 - e)"
  have ed: "e - 52 = - int d" using \<open>e < 53\<close> by (simp add: d_def)
  have u: "(2::rat) powi (e - 52) = 1 / 2 ^ d"
    unfolding ed by (simp add: power_int_minus field_simps)
  have r: "round_even (x / (1 / 2 ^ d)) = int n * 2 ^ d"
  proof -
    have "x / (1 / 2 ^ d) = of_int (int n * 2 ^ d)"
      by (simp add: x_def)
    then show ?thesis
      by (simp only: round_even_of_int)
  qed
  have "double x = of_int (round_even (x / 2 powi (e - 52))) * 2 powi (e - 52)"
    using x by (simp add: double_def Let_def e_def)
  also have "\<dots> = of_int (int n * 2 ^ d) * (1 / 2 ^ d)"
    unfolding u r ..
  finally have "double x = of_int (int n * 2 ^ d) * (1 / 2 ^ d)" .
  then show ?thesis by (simp add: x_def)
qed

declare digits.simps [simp del]

lemma digits_small: "n < 10 \<Longrightarrow> digits n = [digit n]"
  by (subst digits.simps) simp

lemma digits_step: "10 \<le> n \<Longrightarrow> digits n = digits (n div 10) @ [digit (n mod 10)]"
  by (subst digits.simps) simp

lemma digits_nonempty: "digits n \<noteq> []"
  by (cases "n < 10") (simp_all add: digits_small digits_step)

lemma digit_0: "digit 0 = CHR ''0''"
  by code_simp

lemma fixed2_string:
  "(let m = digits n;
        m = (if length m \<le> 2 then replicate (2 + 1 - length m) CHR ''0'' @ m else m);
        k = length m
    in take (k - 2) m @ ''.'' @ drop (k - 2) m) = two_decimals n"
proof -
  consider "n < 10" | "10 \<le> n" "n < 100" | "100 \<le> n" by linarith
  then show ?thesis
  proof cases
    case 1
    then show ?thesis
      by (simp add: digits_small two_decimals_def digit_0 numeral_3_eq_3)
  next
    case 2
    then have "n div 10 < 10" by simp
    with 2 show ?thesis
      by (simp add: digits_step digits_small two_decimals_def digit_0)
  next
    case 3
    then have "10 \<le> n div 10" by simp
    moreover have "n div 10 div 10 = n div 100" by (simp add: div_mult2_eq)
    ultimately have d: "digits n = digits (n div 100) @ [digit (n div 10 mod 10), digit (n mod 10)]"
      using 3 by (simp add: digits_step)
    show ?thesis
      by (simp add: d two_decimals_def Let_def digits_nonempty)
  qed
qed

lemma toFixed_two_decimals:
  assumes "0 \<le> d" and "d < 10 ^ 21"
  shows "toFixed 2 (Num d) = Str (two_decimals (nat \<lfloor>d * 100 + 1 / 2\<rfloor>))"
proof -
  have "toFixed 2 (Num d) = Str
     (let m = digits (nat \<lfloor>d * 100 + 1 / 2\<rfloor>);
          m = (if length m \<le> 2 then replicate (2 + 1 - length m) CHR ''0'' @ m else m);
          k = length m
      in take (k - 2) m @ ''.'' @ drop (k - 2) m)"
    using assms by (simp add: Let_def abs_if)
  then show ?thesis
    by (simp only: fixed2_string)
qed

lemma foldl_add_exact:
  "a + sum_list xs < 2 ^ 53 \<Longrightarrow> foldl add (of_nat a) (map of_nat xs) = of_nat (a + sum_list xs)"
proof (induction xs arbitrary: a)
  case Nil
  then show ?case by simp
next
  case (Cons x xs)
  from Cons.prems have "a + x < 2 ^ 53" by simp
  then have "add (of_nat a) (of_nat x) = of_nat (a + x)"
    using double_of_nat [of "a + x"] by (simp add: add_def)
  moreover from Cons.prems have "(a + x) + sum_list xs < 2 ^ 53" by simp
  ultimately show ?case
    using Cons.IH [of "a + x"] by (simp add: add.assoc)
qed

lemma WinRate_totals:
  assumes "total_picks h < 2 ^ 53" and "total_wins h < 2 ^ 53"
  shows "WinRate h
     = toFixed 2 (times_num (divide_num (of_nat (total_wins h)) (of_nat (total_picks h))) 100)"
proof -
  have p: "foldl add 0 (map (\<lambda>i. of_nat (pick h i)) [1 ..< 9]) = of_nat (total_picks h)"
    using foldl_add_exact [of 0 "map (pick h) [1 ..< 9]"] assms(1)
    by (simp add: total_picks_def comp_def)
  have w: "foldl add 0 (map (\<lambda>i. of_nat (win h i)) [1 ..< 9]) = of_nat (total_wins h)"
    using foldl_add_exact [of 0 "map (win h) [1 ..< 9]"] assms(2)
    by (simp add: total_wins_def comp_def)
  show ?thesis
    unfolding WinRate_def Let_def p w ..
qed

lemma winrate_double_error:
  fixes q :: rat
  assumes "0 \<le> q" and "q \<le> 1"
  shows "0 \<le> double (double q * 100)"
    and "\<bar>double (double q * 100) - 100 * q\<bar> \<le> 300 / 2 ^ 53"
proof -
  define eps :: rat where "eps = 1 / 2 ^ 53"
  define q1 where "q1 = double q"
  define d where "d = double (q1 * 100)"
  have eps: "0 < eps" "eps \<le> 1" by (simp_all add: eps_def)
  have "\<bar>q1 - q\<bar> \<le> q * eps"
    using double_error [of q] assms(1) by (simp add: q1_def eps_def)
  moreover have "q * eps \<le> 1 * eps"
    using assms(2) eps(1) by (intro mult_right_mono) auto
  ultimately have e1: "\<bar>q1 - q\<bar> \<le> eps" by linarith
  have "0 \<le> q1"
    unfolding q1_def using assms(1) by (rule double_nonneg)
  moreover have "q1 \<le> 2"
    using e1 assms(2) eps(2) by linarith
  ultimately have q1: "0 \<le> q1 * 100" "q1 * 100 \<le> 200" by simp_all
  have "\<bar>d - q1 * 100\<bar> \<le> (q1 * 100) * eps"
    using double_error [of "q1 * 100"] q1(1) by (simp add: d_def eps_def)
  moreover have "(q1 * 100) * eps \<le> 200 * eps"
    using q1(2) eps(1) by (intro mult_right_mono) auto
  ultimately have e2: "\<bar>d - q1 * 100\<bar> \<le> 200 * eps" by linarith
  from e1 e2 have "\<bar>d - 100 * q\<bar> \<le> 300 * eps" by linarith
  then show "\<bar>double (double q * 100) - 100 * q\<bar> \<le> 300 / 2 ^ 53"
    by (simp add: d_def q1_def eps_def)
  show "0 \<le> double (double q * 100)"
    unfolding q1_def [symmetric] using q1(1) by (rule double_nonneg)
qed

lemma nearest_hundredth:
  fixes W P :: nat and d :: rat
  assumes P: "0 < P" "P \<le> 10 ^ 11"
    and d: "\<bar>d - 100 * (of_nat W / of_nat P)\<bar> \<le> 300 / 2 ^ 53"
  shows "\<bar>of_int \<lfloor>d * 100 + 1 / 2\<rfloor> / 100 - 100 * of_nat W / of_nat P\<bar> \<le> (1 / 200 :: rat)"
proof -
  define eps :: rat where "eps = 1 / 2 ^ 53"
  define k where "k = \<lfloor>d * 100 + 1 / 2\<rfloor>"
  define x :: rat where "x = of_nat W / of_nat P"
  define y :: rat where "y = 10000 * x"
  define m :: int where "m = 2 * int P * k - 20000 * int W"
  have Pr: "(0::rat) < of_nat P" using P(1) by simp
  have k: "\<bar>of_int k - d * 100\<bar> \<le> (1 / 2 :: rat)"
    unfolding k_def by linarith
  from d have "\<bar>d - 100 * x\<bar> \<le> 300 * eps"
    by (simp add: x_def eps_def)
  then have dy: "\<bar>d * 100 - y\<bar> \<le> 30000 * eps"
    unfolding y_def by linarith
  have ky: "\<bar>of_int k - y\<bar> \<le> 1 / 2 + 30000 * eps"
    using k dy by linarith
  have m_eq: "(of_int m :: rat) = 2 * of_nat P * (of_int k - y)"
    using Pr by (simp add: m_def y_def x_def field_simps)
  have small: "(of_nat P :: rat) * (60000 * eps) < 1"
  proof -
    have "(of_nat P :: rat) \<le> 10 ^ 11"
      using P(2) by (metis of_nat_le_iff of_nat_numeral of_nat_power)
    then have "(of_nat P :: rat) * (60000 * eps) \<le> 10 ^ 11 * (60000 * eps)"
      by (intro mult_right_mono) (auto simp: eps_def)
    also have "\<dots> < 1" by (simp add: eps_def)
    finally show ?thesis .
  qed
  have "\<bar>of_int m :: rat\<bar> = 2 * of_nat P * \<bar>of_int k - y\<bar>"
    unfolding m_eq by (simp add: abs_mult)
  also have "\<dots> \<le> 2 * of_nat P * (1 / 2 + 30000 * eps)"
    using ky Pr by (intro mult_left_mono) auto
  also have "\<dots> = of_nat P + of_nat P * (60000 * eps)"
    by (simp add: field_simps)
  also have "\<dots> < of_nat P + 1"
    using small by simp
  finally have "\<bar>of_int m :: rat\<bar> < of_int (int P + 1)" by simp
  then have "\<bar>m\<bar> < int P + 1"
    by (metis of_int_abs of_int_less_iff)
  then have "\<bar>m\<bar> \<le> int P" by simp
  then have "\<bar>of_int m :: rat\<bar> \<le> of_nat P"
    by (metis of_int_abs of_int_le_iff of_int_of_nat_eq)
  then have "2 * of_nat P * \<bar>of_int k - y\<bar> \<le> (of_nat P :: rat)"
    unfolding m_eq by (simp add: abs_mult)
  then have half: "\<bar>of_int k - y\<bar> \<le> 1 / 2"
    using Pr by (simp add: field_simps)
  have eq: "of_int k / 100 - 100 * of_nat W / of_nat P = (of_int k - y) / 100"
    by (simp add: y_def x_def)
  from half have "\<bar>of_int k - y\<bar> / 100 \<le> (1 / 2) / 100"
    by (rule divide_right_mono) simp
  then have "\<bar>(of_int k - y) / 100\<bar> \<le> 1 / 200"
    by simp
  then show ?thesis
    unfolding k_def [symmetric] eq .
qed

lemma scenario_53: "toFixed 2 (times_num (divide_num 530 1000) 100) = Str ''53.00''"
  by code_simp

lemma is_space_lower_char: "is_space (lower_char c) = is_space c"
  by (auto simp: is_space_def lower_char_def Let_def)

lemma trim_empty_iff: "trim s = [] \<longleftrightarrow> (\<forall>c \<in> set s. is_space c)"
proof -
  have key: "dropWhile is_space (rev (dropWhile is_space s)) = [] \<longleftrightarrow> dropWhile is_space s = []"
  proof
    assume "dropWhile is_space (rev (dropWhile is_space s)) = []"
    then have all: "\<forall>c \<in> set (dropWhile is_space s). is_space c"
      by (simp add: dropWhile_eq_Nil_conv)
    show "dropWhile is_space s = []"
    proof (rule ccontr)
      assume ne: "dropWhile is_space s \<noteq> []"
      then have "\<not> is_space (hd (dropWhile is_space s))"
        by (rule hd_dropWhile)
      moreover from ne have "hd (dropWhile is_space s) \<in> set (dropWhile is_space s)"
        by simp
      ultimately show False using all by blast
    qed
  next
    assume empty: "dropWhile is_space s = []"
    show "dropWhile is_space (rev (dropWhile is_space s)) = []"
      unfolding empty by simp
  qed
  have "trim s = [] \<longleftrightarrow> dropWhile is_space (rev (dropWhile is_space s)) = []"
    by (simp only: trim_def rev_is_Nil_conv)
  also have "\<dots> \<longleftrightarrow> dropWhile is_space s = []"
    by (rule key)
  also have "\<dots> \<longleftrightarrow> (\<forall>c \<in> set s. is_space c)"
    by (rule dropWhile_eq_Nil_conv)
  finally show ?thesis .
qed

lemma blank_search_iff:
  "trim (toLowerCase s) = [] \<longleftrightarrow> (\<forall>c \<in> set s. is_space c)"
  by (simp add: trim_empty_iff toLowerCase_def is_space_lower_char)

section \<open>The item pipeline\<close>

lemma MostBought_sorted_prefix:
  assumes "stats period = Some periodItems"
    and "distinct (map fst periodItems)"
    and "5 \<le> length (GetItems e (SortItems periodItems))"
  shows "\<exists>result. MostBought e period stats = Inr result
      \<and> length (take 5 result) = 5
      \<and> None \<notin> set (take 5 result)
      \<and> (let kept = filter (kept_pair e) (SortItems periodItems)
         in take (length kept) (take 5 result) = take 5 (map (\<lambda>p. lookup_item e (fst p)) kept)
            \<and> sorted_wrt (\<lambda>p q. snd q \<le> snd p) kept
            \<and> (\<forall>c. filter (\<lambda>p. snd p = c) kept
                     = filter (\<lambda>p. snd p = c) (filter (kept_pair e) periodItems)))"
proof -
  define objectList where "objectList = GetItems e (SortItems periodItems)"
  define filteredItems where "filteredItems = filter interesting objectList"
  define padding where "padding = map (array_get objectList) [0 ..< 5 - length filteredItems]"
  define kept where "kept = filter (kept_pair e) (SortItems periodItems)"
  define result where "result = map Some filteredItems @ padding"
  have res: "MostBought e period stats = Inr result"
    using MostBought_closed [where stats = stats and period = period and e = e, OF assms(1)]
    by (simp add: Let_def objectList_def filteredItems_def padding_def result_def)
  have len: "length (take 5 result) = 5"
    by (simp add: result_def padding_def)
  have "None \<notin> set padding"
    using assms(3) by (auto simp: padding_def array_get_def objectList_def)
  then have "None \<notin> set result"
    by (auto simp: result_def)
  then have items: "None \<notin> set (take 5 result)"
    by (auto dest: in_set_takeD)
  have front: "map Some filteredItems = map (\<lambda>p. lookup_item e (fst p)) kept"
    unfolding filteredItems_def objectList_def kept_def by (rule filter_GetItems)
  then have "length kept = length filteredItems"
    by (metis length_map)
  then have "take (length kept) (take 5 result) = take 5 (map Some filteredItems)"
    by (simp add: result_def min_def)
  then have portion: "take (length kept) (take 5 result) = take 5 (map (\<lambda>p. lookup_item e (fst p)) kept)"
    by (simp only: front)
  have desc: "sorted_wrt (\<lambda>p q. snd q \<le> snd p) kept"
    unfolding kept_def by (intro sorted_wrt_filter SortItems_descending assms(2))
  have ties: "filter (\<lambda>p. snd p = c) kept
      = filter (\<lambda>p. snd p = c) (filter (kept_pair e) periodItems)" for c
  proof -
    have "filter (\<lambda>p. snd p = c) kept = filter (kept_pair e) (filter (\<lambda>p. snd p = c) (SortItems periodItems))"
      by (simp add: kept_def conj_commute)
    also have "\<dots> = filter (kept_pair e) (filter (\<lambda>p. snd p = c) periodItems)"
      by (simp only: SortItems_stable [OF assms(2)])
    also have "\<dots> = filter (\<lambda>p. snd p = c) (filter (kept_pair e) periodItems)"
      by (simp add: conj_commute)
    finally show ?thesis .
  qed
  from res len items portion desc ties show ?thesis
    unfolding kept_def Let_def by blast
qed

text \<open>
  Claim C1.  \<^verbatim>\<open>MostBoughtItems\<close> returns when the popularity object has its three phases.
  For each phase of which at least five entries resolve to items, the list it returns
  (\<^verbatim>\<open>MostBought\<close> followed by \<^verbatim>\<open>slice(0, 5)\<close>) has exactly five entries, all of them items.
  The part of the list that comes from the filter is the image of the entries that pass
  the filter (\<open>kept\<close>), in their sorted order; these are in descending order of purchase
  count, and entries with the same count keep the order they have in the phase object.
\<close>

theorem MostBoughtItems_top5:
  assumes "(period, field) \<in> set phases"
    and "\<forall>p \<in> set (map fst phases). ItemPopularity e heroId p \<noteq> None"
    and "ItemPopularity e heroId period = Some periodItems"
    and "distinct (map fst periodItems)"
    and "5 \<le> length (GetItems e (SortItems periodItems))"
  shows "\<exists>items. MostBoughtItems e heroId = Inr items
      \<and> length (field items) = 5
      \<and> None \<notin> set (field items)
      \<and> (let kept = filter (kept_pair e) (SortItems periodItems)
         in take (length kept) (field items) = take 5 (map (\<lambda>p. lookup_item e (fst p)) kept)
            \<and> sorted_wrt (\<lambda>p q. snd q \<le> snd p) kept
            \<and> (\<forall>c. filter (\<lambda>p. snd p = c) kept
                     = filter (\<lambda>p. snd p = c) (filter (kept_pair e) periodItems)))"
proof -
  define stats where "stats = ItemPopularity e heroId"
  from assms(2) obtain pe pm pl where
    present: "stats ''early_game_items'' = Some pe" "stats ''mid_game_items'' = Some pm"
      "stats ''late_game_items'' = Some pl"
    by (auto simp: phases_def stats_def)
  from present obtain earlyGame midGame lateGame where
    runs: "MostBought e ''early_game_items'' stats = Inr earlyGame"
      "MostBought e ''mid_game_items'' stats = Inr midGame"
      "MostBought e ''late_game_items'' stats = Inr lateGame"
    by (simp add: MostBought_def Let_def)
  define items where "items = \<lparr>early_game = take 5 earlyGame, mid_game = take 5 midGame,
    late_game = take 5 lateGame\<rparr>"
  have all: "MostBoughtItems e heroId = Inr items"
    unfolding items_def using runs unfolding stats_def by (rule MostBoughtItems_slices)
  from MostBought_sorted_prefix [where stats = stats and period = period and e = e,
      OF assms(3) [folded stats_def] assms(4) assms(5)]
  obtain result where result: "MostBought e period stats = Inr result"
    and props: "length (take 5 result) = 5" "None \<notin> set (take 5 result)"
      "let kept = filter (kept_pair e) (SortItems periodItems)
       in take (length kept) (take 5 result) = take 5 (map (\<lambda>p. lookup_item e (fst p)) kept)
          \<and> sorted_wrt (\<lambda>p q. snd q \<le> snd p) kept
          \<and> (\<forall>c. filter (\<lambda>p. snd p = c) kept
                   = filter (\<lambda>p. snd p = c) (filter (kept_pair e) periodItems))"
    by blast
  have "field items = take 5 result"
    using assms(1) runs result by (auto simp: phases_def items_def)
  with all props show ?thesis
    by auto
qed

text \<open>
  In the early phase of the second data set six items pass the filter and \<^verbatim>\<open>MostBought\<close>
  returns all six; the list of \<^verbatim>\<open>MostBoughtItems\<close> has the first five.
\<close>

theorem MostBoughtItems_top5_witness:
  "(''early_game_items'', early_game) \<in> set phases
   \<and> ItemPopularity rich_env 2 ''early_game_items'' = Some rich_early
   \<and> ItemPopularity rich_env 2 ''mid_game_items'' = Some example_mid
   \<and> ItemPopularity rich_env 2 ''late_game_items'' = Some example_late
   \<and> distinct (map fst rich_early)
   \<and> 5 \<le> length (GetItems rich_env (SortItems rich_early))
   \<and> MostBought rich_env ''early_game_items'' rich_stats
       = Inr [Some magic_wand, Some bottle, Some phase_boots, Some power_treads, Some bracer,
              Some blink]
   \<and> (\<exists>items. MostBoughtItems rich_env 2 = Inr items
      \<and> early_game items
          = [Some magic_wand, Some bottle, Some phase_boots, Some power_treads, Some bracer]
      \<and> length (early_game items) = 5
      \<and> None \<notin> set (early_game items)
      \<and> (let kept = filter (kept_pair rich_env) (SortItems rich_early)
         in take (length kept) (early_game items)
              = take 5 (map (\<lambda>p. lookup_item rich_env (fst p)) kept)
            \<and> sorted_wrt (\<lambda>p q. snd q \<le> snd p) kept
            \<and> (\<forall>c. filter (\<lambda>p. snd p = c) kept
                     = filter (\<lambda>p. snd p = c) (filter (kept_pair rich_env) rich_early))))"
proof -
  have h1: "(''early_game_items'', early_game) \<in> set phases"
    by (simp add: phases_def)
  have pe: "ItemPopularity rich_env 2 ''early_game_items'' = Some rich_early"
    by code_simp
  have pm: "ItemPopularity rich_env 2 ''mid_game_items'' = Some example_mid"
    by code_simp
  have pl: "ItemPopularity rich_env 2 ''late_game_items'' = Some example_late"
    by code_simp
  from pe pm pl have h2: "\<forall>p \<in> set (map fst phases). ItemPopularity rich_env 2 p \<noteq> None"
    by (simp add: phases_def)
  have h4: "distinct (map fst rich_early)"
    by code_simp
  have h5: "5 \<le> length (GetItems rich_env (SortItems rich_early))"
    by code_simp
  have six: "MostBought rich_env ''early_game_items'' rich_stats
       = Inr [Some magic_wand, Some bottle, Some phase_boots, Some power_treads, Some bracer,
              Some blink]"
    by code_simp
  have run: "MostBoughtItems rich_env 2
       = Inr \<lparr>early_game = [Some magic_wand, Some bottle, Some phase_boots, Some power_treads,
                 Some bracer],
              mid_game = [Some blink, Some blink, Some boots, Some tango, Some tpscroll],
              late_game = [Some magic_wand, Some tango, Some magic_wand, None, None]\<rparr>"
    by code_simp
  from MostBoughtItems_top5 [OF h1 h2 pe h4 h5] obtain items where
    items: "MostBoughtItems rich_env 2 = Inr items"
    and props: "length (early_game items) = 5" "None \<notin> set (early_game items)"
      "let kept = filter (kept_pair rich_env) (SortItems rich_early)
       in take (length kept) (early_game items)
            = take 5 (map (\<lambda>p. lookup_item rich_env (fst p)) kept)
          \<and> sorted_wrt (\<lambda>p q. snd q \<le> snd p) kept
          \<and> (\<forall>c. filter (\<lambda>p. snd p = c) kept
                   = filter (\<lambda>p. snd p = c) (filter (kept_pair rich_env) rich_early))"
    by blast
  from items run have "early_game items
      = [Some magic_wand, Some bottle, Some phase_boots, Some power_treads, Some bracer]"
    by auto
  with items props h1 pe pm pl h4 h5 six show ?thesis
    by blast
qed

text \<open>
  Claim C2, as stated, fails: the padding loop pushes \<^verbatim>\<open>objectList[0]\<close>, \<^verbatim>\<open>objectList[1]\<close>, ...
  whether or not the item is already among the filtered ones.  In the middle phase of the
  example the only filtered item is \<open>blink\<close>, and the first padding entry is \<open>blink\<close> again.
\<close>

theorem padding_duplicates:
  "filter interesting (GetItems example_env (SortItems example_mid)) = [blink]
   \<and> MostBought example_env ''mid_game_items'' example_stats
       = Inr ([Some blink] @ [Some blink, Some boots, Some tango, Some tpscroll])"
  by code_simp

text \<open>
  Claim C2, amended.  With \<open>k\<close> filtered items, the padding consists of the first \<open>5 - k\<close>
  entries of the sequence before the filter, in that sequence's order and without
  skipping any (\<^verbatim>\<open>undefined\<close> from the end of that sequence on).
\<close>

theorem MostBought_padding:
  assumes "stats period = Some periodItems"
  shows "MostBought e period stats =
     (let objectList = GetItems e (SortItems periodItems);
          filteredItems = filter interesting objectList
      in Inr (map Some filteredItems
              @ map (array_get objectList) [0 ..< 5 - length filteredItems]))"
  using assms by (rule MostBought_closed)

theorem MostBought_padding_witness:
  "example_stats ''mid_game_items'' = Some example_mid
   \<and> MostBought example_env ''mid_game_items'' example_stats =
     (let objectList = GetItems example_env (SortItems example_mid);
          filteredItems = filter interesting objectList
      in Inr (map Some filteredItems
              @ map (array_get objectList) [0 ..< 5 - length filteredItems]))"
proof -
  have h: "example_stats ''mid_game_items'' = Some example_mid"
    by code_simp
  from h MostBought_padding [where stats = example_stats and e = example_env, OF h]
  show ?thesis by (rule conjI)
qed

text \<open>
  Claim C7, as stated, fails for an item whose components array is present and empty:
  the filter tests \<^verbatim>\<open>item['components']\<close> for truthiness, and every array is truthy.
\<close>

theorem filter_keeps_empty_components:
  "interesting empty_components \<and> \<not> spec_interesting empty_components"
  by code_simp

text \<open>
  Claim C7, amended.  The filter keeps an item if and only if its id is 1, 41 or 609 or
  it has a components array (empty or not); every other item is dropped, and the order
  is kept.
\<close>

theorem filter_interesting_iff:
  "filter interesting objectList
     = filter (\<lambda>item. item_id item \<in> {1, 41, 609} \<or> (\<exists>cs. components item = Some cs)) objectList"
  by (rule filter_cong) (auto simp: interesting_def)



section \<open>The hero resolver\<close>

text \<open>
  Claim C5.  For a lower-cased query other than \<^verbatim>\<open>"io"\<close>, \<^verbatim>\<open>GetHero\<close> returns the first hero
  of the roster, in roster order, that matches the query by localized name (without
  regard to case) or by internal name without its prefix; it returns \<^verbatim>\<open>null\<close> exactly when
  no hero of the roster matches.
\<close>

theorem GetHero_first_match:
  assumes "query \<noteq> ''io''" and "toLowerCase query = query"
  shows "GetHero roster query = List.find (name_matches query) roster
     \<and> (GetHero roster query = None \<longleftrightarrow> (\<forall>h \<in> set roster. \<not> name_matches query h))
     \<and> (\<forall>h. GetHero roster query = Some h \<longrightarrow>
            (\<exists>before after. roster = before @ h # after \<and> name_matches query h
               \<and> (\<forall>h' \<in> set before. \<not> name_matches query h')))"
proof -
  have eq: "GetHero roster query = List.find (name_matches query) roster"
    using assms by (simp add: GetHero_find name_matches_def [abs_def] string_includes_sublist)
  have none: "GetHero roster query = None \<longleftrightarrow> (\<forall>h \<in> set roster. \<not> name_matches query h)"
    by (auto simp: eq find_None_iff)
  have some: "\<exists>before after. roster = before @ h # after \<and> name_matches query h
      \<and> (\<forall>h' \<in> set before. \<not> name_matches query h')"
    if "GetHero roster query = Some h" for h
  proof -
    from that obtain i where i: "i < length roster" "name_matches query (roster ! i)"
      "h = roster ! i" "\<forall>j < i. \<not> name_matches query (roster ! j)"
      unfolding eq find_Some_iff by blast
    have "roster = take i roster @ h # drop (Suc i) roster"
      using i(1,3) by (simp add: id_take_nth_drop)
    moreover have "\<forall>h' \<in> set (take i roster). \<not> name_matches query h'"
      using i(1,4) by (auto simp: in_set_conv_nth)
    ultimately show ?thesis
      using i(2,3) by blast
  qed
  from eq none some show ?thesis by blast
qed

theorem GetHero_first_match_witness:
  "''li'' \<noteq> ''io'' \<and> toLowerCase ''li'' = ''li''
   \<and> GetHero example_roster ''li'' = Some hero_lion
   \<and> List.find (name_matches ''li'') example_roster = Some hero_lion"
proof -
  have h1: "''li'' \<noteq> ''io''" by simp
  have h2: "toLowerCase ''li'' = ''li''" by code_simp
  have r: "GetHero example_roster ''li'' = Some hero_lion"
    by (simp add: example_roster_def hero_axe_def hero_lion_def hero_wisp_def toLowerCase_examples)
  from GetHero_first_match [OF h1 h2, of example_roster] r h1 h2 show ?thesis
    by simp
qed

text \<open>
  Claim C6.  The query \<^verbatim>\<open>"io"\<close> is resolved only to a hero of the roster whose localized
  name is \<^verbatim>\<open>"io"\<close> up to case, whatever other names contain these two letters.
\<close>

theorem GetHero_io_exact:
  assumes "GetHero roster ''io'' = Some h"
  shows "h \<in> set roster \<and> toLowerCase (localized_name h) = ''io''"
  using assms unfolding GetHero_io find_Some_iff by auto

text \<open>In the example roster \<open>Lion\<close> comes before \<open>Io\<close> and contains the query, and is passed over.\<close>

theorem GetHero_io_exact_witness:
  "GetHero example_roster ''io'' = Some hero_wisp
   \<and> hero_wisp \<in> set example_roster \<and> toLowerCase (localized_name hero_wisp) = ''io''"
proof -
  have r: "GetHero example_roster ''io'' = Some hero_wisp"
    by (simp add: example_roster_def hero_axe_def hero_lion_def hero_wisp_def toLowerCase_examples)
  from GetHero_io_exact [OF r] r show ?thesis
    by simp
qed

section \<open>The win rate\<close>

text \<open>
  Claim C8, as stated, fails.  For 23 wins in 160 picks the exact rate is 14.375, which
  rounds to 14.38; the double computed by \<^verbatim>\<open>(sum_wins / sum_picks) * 100\<close> lies just below
  14.375 and \<^verbatim>\<open>toFixed(2)\<close> prints 14.37.  For totals beyond the range of the amended
  claim the printed value need not even be the nearest one: for 660724874398 wins in
  1769245881371 picks it is 37.34, more than 0.005 below the exact rate.
\<close>

theorem WinRate_not_standard_rounding:
  "total_picks hero_visage = 160 \<and> total_wins hero_visage = 23
   \<and> WinRate hero_visage = Str ''14.37''
   \<and> spec_winRate 23 160 = ''14.38''
   \<and> total_picks hero_crowd = 1769245881371 \<and> total_wins hero_crowd = 660724874398
   \<and> WinRate hero_crowd = Str ''37.34''
   \<and> (1 / 200 :: rat) < \<bar>3734 / 100 - 100 * 660724874398 / 1769245881371\<bar>"
  by code_simp

text \<open>
  Claim C8, amended.  For a hero with at least one and at most \<open>10\<^sup>1\<^sup>1\<close> picks in total, and
  no more wins than picks, \<^verbatim>\<open>WinRate\<close> sums the picks and the wins of the eight brackets
  and returns a numeral with two decimal places that differs from
  \<open>100 * totalWins / totalPicks\<close> by at most 0.005: the nearest such numeral, and one of
  the two nearest when the exact rate lies halfway between them.  For 1000 picks and 530
  wins it returns 53.00.
\<close>

theorem WinRate_nearest_hundredth:
  assumes "0 < total_picks h"
    and "total_wins h \<le> total_picks h"
    and "total_picks h \<le> 10 ^ 11"
  shows "(\<exists>n. WinRate h = Str (two_decimals n)
            \<and> \<bar>of_nat n / 100 - 100 * of_nat (total_wins h) / of_nat (total_picks h)\<bar>
                \<le> (1 / 200 :: rat))
     \<and> (total_picks h = 1000 \<and> total_wins h = 530 \<longrightarrow> WinRate h = Str ''53.00'')"
proof -
  define P where "P = total_picks h"
  define W where "W = total_wins h"
  define q :: rat where "q = of_nat W / of_nat P"
  define d where "d = double (double q * 100)"
  have P: "0 < P" "P \<le> 10 ^ 11" and WP: "W \<le> P"
    using assms by (simp_all add: P_def W_def)
  have Pr: "(0::rat) < of_nat P" using P(1) by simp
  have "P < 2 ^ 53" using P(2) by simp
  moreover from this WP have "W < 2 ^ 53" by simp
  ultimately have "WinRate h = toFixed 2 (times_num (divide_num (of_nat W) (of_nat P)) 100)"
    unfolding P_def W_def by (rule WinRate_totals)
  then have wr: "WinRate h = toFixed 2 (Num d)"
    using P(1) by (simp add: divide_num_def d_def q_def)
  have q: "0 \<le> q" "q \<le> 1"
    using WP Pr by (simp_all add: q_def)
  from winrate_double_error [OF q] have d: "0 \<le> d" "\<bar>d - 100 * q\<bar> \<le> 300 / 2 ^ 53"
    by (simp_all add: d_def)
  have "d \<le> 100 * q + 300 / 2 ^ 53" using d(2) by linarith
  also have "\<dots> \<le> 100 * 1 + 300 / 2 ^ 53" using q(2) by simp
  also have "\<dots> < 10 ^ 21" by simp
  finally have "d < 10 ^ 21" .
  with d(1) have str: "WinRate h = Str (two_decimals (nat \<lfloor>d * 100 + 1 / 2\<rfloor>))"
    unfolding wr by (rule toFixed_two_decimals)
  have "0 \<le> \<lfloor>d * 100 + 1 / 2\<rfloor>" using d(1) by simp
  then have "(of_nat (nat \<lfloor>d * 100 + 1 / 2\<rfloor>) :: rat) = of_int \<lfloor>d * 100 + 1 / 2\<rfloor>"
    by simp
  moreover have "\<bar>of_int \<lfloor>d * 100 + 1 / 2\<rfloor> / 100 - 100 * of_nat W / of_nat P\<bar> \<le> (1 / 200 :: rat)"
    using P d(2) unfolding q_def by (rule nearest_hundredth)
  ultimately have near: "\<bar>of_nat (nat \<lfloor>d * 100 + 1 / 2\<rfloor>) / 100 - 100 * of_nat W / of_nat P\<bar> \<le> (1 / 200 :: rat)"
    by simp
  have scen: "WinRate h = Str ''53.00''" if "P = 1000" "W = 530"
    using wr that scenario_53 by (simp add: d_def q_def divide_num_def)
  from str near scen show ?thesis
    unfolding P_def W_def by blast
qed

theorem WinRate_nearest_hundredth_witness:
  "0 < total_picks hero_axe \<and> total_wins hero_axe \<le> total_picks hero_axe
   \<and> total_picks hero_axe \<le> 10 ^ 11
   \<and> total_picks hero_axe = 1000 \<and> total_wins hero_axe = 530
   \<and> WinRate hero_axe = Str ''53.00''"
proof -
  have h1: "0 < total_picks hero_axe" by code_simp
  have h2: "total_wins hero_axe \<le> total_picks hero_axe" by code_simp
  have h3: "total_picks hero_axe \<le> 10 ^ 11" by code_simp
  have p: "total_picks hero_axe = 1000" by code_simp
  have w: "total_wins hero_axe = 530" by code_simp
  from WinRate_nearest_hundredth [OF h1 h2 h3] p w h1 h2 h3 show ?thesis
    by blast
qed

text \<open>
  Claim C4, as stated, fails: for a hero without picks \<^verbatim>\<open>0 / 0\<close> is \<^verbatim>\<open>NaN\<close>, and \<^verbatim>\<open>WinRate\<close>
  returns the text \<^verbatim>\<open>NaN\<close> as it returns any other rate.
\<close>

theorem WinRate_NaN_example:
  "total_picks hero_wisp = 0 \<and> WinRate hero_wisp = Str ''NaN''"
  by code_simp

text \<open>
  Claim C4, amended.  For every hero whose picks over the eight brackets add up to 0
  (and whose wins, therefore, do too), \<^verbatim>\<open>WinRate\<close> returns the text \<^verbatim>\<open>NaN\<close>; no other signal
  is given.
\<close>

theorem WinRate_no_picks:
  assumes "total_picks h = 0" and "total_wins h \<le> total_picks h"
  shows "WinRate h = Str ''NaN''"
proof -
  from assms have w: "total_wins h = 0" by simp
  have "WinRate h = toFixed 2 (times_num (divide_num (of_nat (total_wins h)) (of_nat (total_picks h))) 100)"
    by (rule WinRate_totals) (simp_all add: assms(1) w)
  then show ?thesis
    by (simp add: assms(1) w divide_num_def)
qed

theorem WinRate_no_picks_witness:
  "total_picks hero_wisp = 0 \<and> total_wins hero_wisp \<le> total_picks hero_wisp
   \<and> WinRate hero_wisp = Str ''NaN''"
proof -
  have h1: "total_picks hero_wisp = 0" by code_simp
  have h2: "total_wins hero_wisp \<le> total_picks hero_wisp" by code_simp
  from h1 h2 WinRate_no_picks [OF h1 h2] show ?thesis
    by (intro conjI)
qed


section \<open>Search and random choice\<close>

text \<open>
  Claim C9.  When the content of the search field is empty after lower-casing and
  trimming, that is (\<open>blank_search_iff\<close>) when it holds nothing but white space,
  \<^verbatim>\<open>SearchHero\<close> does what \<^verbatim>\<open>RandomHero\<close> does on the same document, with the same random
  value.
\<close>

theorem SearchHero_empty_is_RandomHero:
  assumes "trim (toLowerCase (hero_search d)) = []"
  shows "SearchHero e r d = RandomHero e r d"
  using assms by (simp add: SearchHero_def)

text \<open>
  A search field with a no-break space, a space and a tab: the random choice is made, here
  of the first hero of the roster.
\<close>

theorem SearchHero_empty_is_RandomHero_witness:
  "trim (toLowerCase (hero_search nbsp_dom)) = []
   \<and> SearchHero example_env 0 nbsp_dom = RandomHero example_env 0 nbsp_dom
   \<and> hero_name (snd (SearchHero example_env 0 nbsp_dom)) = ''AXE''"
proof -
  have h: "trim (toLowerCase (hero_search nbsp_dom)) = []"
    by code_simp
  have r: "hero_name (snd (RandomHero example_env 0 nbsp_dom)) = ''AXE''"
    by code_simp
  from SearchHero_empty_is_RandomHero [OF h, of example_env 0] h r show ?thesis
    by simp
qed

text \<open>
  Claim C3 does not hold of the code.  \<^verbatim>\<open>RandomHero\<close> asks for an index between 0 and
  the length of the roster, both inclusive.  For the roster of three heroes and the
  random value 0.75 the index is 3, one past the last hero: \<^verbatim>\<open>targetHero\<close> is undefined and
  reading its name throws.
\<close>

theorem RandomHero_past_the_end:
  "RandomIntFromInterval (3 / 4) 0 (of_nat (length (HERO_STATS example_env)))
     = int (length (HERO_STATS example_env))
   \<and> RandomHero example_env (3 / 4) example_dom
       = (Throw TypeError, example_dom\<lparr>hero_search := []\<rparr>)"
  by code_simp

end
